theory Spec2Isabelle
  imports Main "HOL-Library.State_Monad"
begin

section \<open>Haven: the consent system for dangerous actions\<close>

text \<open>
  A shallow embedding of \<^verbatim>\<open>src/haven/consent/manager.py\<close>: the risk levels, the
  \<^verbatim>\<open>Action\<close> dataclass, the class \<^verbatim>\<open>ConsentManager\<close> with its catalogue
  \<^verbatim>\<open>ACTIONS\<close>, and the helper \<^verbatim>\<open>create_calm_warning\<close>.
\<close>

subsection \<open>Strings\<close>

text \<open>
  A Python \<^verbatim>\<open>str\<close> is a sequence of Unicode code points. The warnings of the
  catalogue are Arabic text and symbols outside ASCII, so a string is modelled as the
  list of its code points. \<open>ascii\<close> embeds a literal whose characters are all ASCII.
\<close>

type_synonym str = "nat list"

definition ascii :: "string \<Rightarrow> str" where
  "ascii s = map of_char s"

subsection \<open>Risk levels and actions\<close>

text \<open>\<^verbatim>\<open>class ActionRisk(Enum)\<close>: five members.\<close>

datatype ActionRisk = SAFE | LOW | MEDIUM | HIGH | CRITICAL

text \<open>\<^verbatim>\<open>@dataclass class Action\<close>.\<close>

record Action =
  name :: str
  description :: str
  risk_level :: ActionRisk
  warning_ar :: str
  warning_en :: str

text \<open>
  \<^verbatim>\<open>Action.get_warning\<close>:
  \<^verbatim>\<open>return self.warning_ar if language == "ar" else self.warning_en\<close>
\<close>

definition Action_get_warning :: "Action \<Rightarrow> str \<Rightarrow> str" where
  "Action_get_warning self language =
     (if language = ascii ''ar'' then warning_ar self else warning_en self)"

subsection \<open>The predefined actions\<close>

text \<open>
  The entries of the dictionary literal \<^verbatim>\<open>ConsentManager.ACTIONS\<close>, in the order of
  the source. Each Arabic warning is given by its code points; each English warning is
  its leading symbol followed by ASCII text.
\<close>

definition github_delete_repo_ar :: str where
  "github_delete_repo_ar = [
     0x26A0, 0xFE0F, 0x0020, 0x062A, 0x062D, 0x0630, 0x064A, 0x0631, 0x003A, 0x0020,
     0x0647, 0x0630, 0x0627, 0x0020, 0x0627, 0x0644, 0x0625, 0x062C, 0x0631, 0x0627,
     0x0621, 0x0020, 0x0633, 0x064A, 0x062D, 0x0630, 0x0641, 0x0020, 0x0627, 0x0644,
     0x0645, 0x0633, 0x062A, 0x0648, 0x062F, 0x0639, 0x0020, 0x0628, 0x0634, 0x0643,
     0x0644, 0x0020, 0x062F, 0x0627, 0x0626, 0x0645, 0x002E, 0x0020, 0x0644, 0x0627,
     0x0020, 0x064A, 0x0645, 0x0643, 0x0646, 0x0020, 0x0627, 0x0644, 0x062A, 0x0631,
     0x0627, 0x062C, 0x0639, 0x0020, 0x0639, 0x0646, 0x0020, 0x0647, 0x0630, 0x0627,
     0x0020, 0x0627, 0x0644, 0x0625, 0x062C, 0x0631, 0x0627, 0x0621, 0x002E]"

definition github_delete_repo_en :: str where
  "github_delete_repo_en =
     [0x26A0, 0xFE0F] @ ascii '' Warning: This will permanently delete the repository. This action cannot be undone.''"

definition github_delete_repo_action :: Action where
  "github_delete_repo_action = \<lparr>name = ascii ''github_delete_repo'',
     description = ascii ''Delete a GitHub repository'',
     risk_level = CRITICAL,
     warning_ar = github_delete_repo_ar,
     warning_en = github_delete_repo_en\<rparr>"

definition github_force_push_ar :: str where
  "github_force_push_ar = [
     0x26A0, 0xFE0F, 0x0020, 0x062A, 0x0646, 0x0628, 0x064A, 0x0647, 0x003A, 0x0020,
     0x0627, 0x0644, 0x062F, 0x0641, 0x0639, 0x0020, 0x0627, 0x0644, 0x0642, 0x0633,
     0x0631, 0x064A, 0x0020, 0x0642, 0x062F, 0x0020, 0x064A, 0x062D, 0x0630, 0x0641,
     0x0020, 0x062A, 0x0627, 0x0631, 0x064A, 0x062E, 0x0020, 0x0627, 0x0644, 0x0643,
     0x0648, 0x062F, 0x002E, 0x0020, 0x064A, 0x064F, 0x0646, 0x0635, 0x062D, 0x0020,
     0x0628, 0x0623, 0x062E, 0x0630, 0x0020, 0x0646, 0x0633, 0x062E, 0x0629, 0x0020,
     0x0627, 0x062D, 0x062A, 0x064A, 0x0627, 0x0637, 0x064A, 0x0629, 0x0020, 0x0623,
     0x0648, 0x0644, 0x0627, 0x064B, 0x002E]"

definition github_force_push_en :: str where
  "github_force_push_en =
     [0x26A0, 0xFE0F] @ ascii '' Notice: Force pushing may delete code history. Consider backing up first.''"

definition github_force_push_action :: Action where
  "github_force_push_action = \<lparr>name = ascii ''github_force_push'',
     description = ascii ''Force push to GitHub repository'',
     risk_level = HIGH,
     warning_ar = github_force_push_ar,
     warning_en = github_force_push_en\<rparr>"

definition github_make_public_ar :: str where
  "github_make_public_ar = [
     0x2139, 0xFE0F, 0x0020, 0x0645, 0x0644, 0x0627, 0x062D, 0x0638, 0x0629, 0x003A,
     0x0020, 0x0633, 0x064A, 0x0635, 0x0628, 0x062D, 0x0020, 0x0627, 0x0644, 0x0645,
     0x0633, 0x062A, 0x0648, 0x062F, 0x0639, 0x0020, 0x0645, 0x0631, 0x0626, 0x064A,
     0x0627, 0x064B, 0x0020, 0x0644, 0x0644, 0x062C, 0x0645, 0x064A, 0x0639, 0x002E,
     0x0020, 0x062A, 0x0623, 0x0643, 0x062F, 0x0020, 0x0645, 0x0646, 0x0020, 0x0639,
     0x062F, 0x0645, 0x0020, 0x0648, 0x062C, 0x0648, 0x062F, 0x0020, 0x0628, 0x064A,
     0x0627, 0x0646, 0x0627, 0x062A, 0x0020, 0x062D, 0x0633, 0x0627, 0x0633, 0x0629,
     0x002E]"

definition github_make_public_en :: str where
  "github_make_public_en =
     [0x2139, 0xFE0F] @ ascii '' Note: The repository will be visible to everyone. Ensure no sensitive data is present.''"

definition github_make_public_action :: Action where
  "github_make_public_action = \<lparr>name = ascii ''github_make_public'',
     description = ascii ''Make repository public'',
     risk_level = MEDIUM,
     warning_ar = github_make_public_ar,
     warning_en = github_make_public_en\<rparr>"

definition azure_delete_resource_ar :: str where
  "azure_delete_resource_ar = [
     0x26A0, 0xFE0F, 0x0020, 0x062A, 0x062D, 0x0630, 0x064A, 0x0631, 0x003A, 0x0020,
     0x0633, 0x064A, 0x062A, 0x0645, 0x0020, 0x062D, 0x0630, 0x0641, 0x0020, 0x0627,
     0x0644, 0x0645, 0x0648, 0x0631, 0x062F, 0x0020, 0x0645, 0x0646, 0x0020, 0x0041,
     0x007A, 0x0075, 0x0072, 0x0065, 0x002E, 0x0020, 0x0642, 0x062F, 0x0020, 0x064A,
     0x0624, 0x062B, 0x0631, 0x0020, 0x0647, 0x0630, 0x0627, 0x0020, 0x0639, 0x0644,
     0x0649, 0x0020, 0x0627, 0x0644, 0x062E, 0x062F, 0x0645, 0x0627, 0x062A, 0x0020,
     0x0627, 0x0644, 0x0645, 0x0631, 0x062A, 0x0628, 0x0637, 0x0629, 0x002E]"

definition azure_delete_resource_en :: str where
  "azure_delete_resource_en =
     [0x26A0, 0xFE0F] @ ascii '' Warning: This will delete the resource from Azure. This may affect connected services.''"

definition azure_delete_resource_action :: Action where
  "azure_delete_resource_action = \<lparr>name = ascii ''azure_delete_resource'',
     description = ascii ''Delete Azure resource'',
     risk_level = HIGH,
     warning_ar = azure_delete_resource_ar,
     warning_en = azure_delete_resource_en\<rparr>"

definition azure_modify_permissions_ar :: str where
  "azure_modify_permissions_ar = [
     0x2139, 0xFE0F, 0x0020, 0x062A, 0x0646, 0x0628, 0x064A, 0x0647, 0x003A, 0x0020,
     0x0633, 0x064A, 0x062A, 0x0645, 0x0020, 0x062A, 0x0639, 0x062F, 0x064A, 0x0644,
     0x0020, 0x0635, 0x0644, 0x0627, 0x062D, 0x064A, 0x0627, 0x062A, 0x0020, 0x0627,
     0x0644, 0x0648, 0x0635, 0x0648, 0x0644, 0x002E, 0x0020, 0x062A, 0x0623, 0x0643,
     0x062F, 0x0020, 0x0645, 0x0646, 0x0020, 0x0623, 0x0646, 0x0643, 0x0020, 0x062A,
     0x0639, 0x0631, 0x0641, 0x0020, 0x0645, 0x0627, 0x0020, 0x062A, 0x0641, 0x0639,
     0x0644, 0x002E]"

definition azure_modify_permissions_en :: str where
  "azure_modify_permissions_en =
     [0x2139, 0xFE0F] @ ascii '' Notice: Access permissions will be modified. Make sure you know what you'' @ [0x0027] @ ascii ''re doing.''"

definition azure_modify_permissions_action :: Action where
  "azure_modify_permissions_action = \<lparr>name = ascii ''azure_modify_permissions'',
     description = ascii ''Modify Azure resource permissions'',
     risk_level = MEDIUM,
     warning_ar = azure_modify_permissions_ar,
     warning_en = azure_modify_permissions_en\<rparr>"

definition delete_file_ar :: str where
  "delete_file_ar = [
     0x2139, 0xFE0F, 0x0020, 0x0633, 0x064A, 0x062A, 0x0645, 0x0020, 0x062D, 0x0630,
     0x0641, 0x0020, 0x0627, 0x0644, 0x0645, 0x0644, 0x0641, 0x002E, 0x0020, 0x0647,
     0x0644, 0x0020, 0x062A, 0x0631, 0x064A, 0x062F, 0x0020, 0x0627, 0x0644, 0x0645,
     0x062A, 0x0627, 0x0628, 0x0639, 0x0629, 0x061F]"

definition delete_file_en :: str where
  "delete_file_en =
     [0x2139, 0xFE0F] @ ascii '' The file will be deleted. Do you want to continue?''"

definition delete_file_action :: Action where
  "delete_file_action = \<lparr>name = ascii ''delete_file'',
     description = ascii ''Delete a file'',
     risk_level = LOW,
     warning_ar = delete_file_ar,
     warning_en = delete_file_en\<rparr>"

definition clear_history_ar :: str where
  "clear_history_ar = [
     0x2139, 0xFE0F, 0x0020, 0x0633, 0x064A, 0x062A, 0x0645, 0x0020, 0x062D, 0x0630,
     0x0641, 0x0020, 0x0633, 0x062C, 0x0644, 0x0020, 0x0627, 0x0644, 0x0645, 0x062D,
     0x0627, 0x062F, 0x062B, 0x0627, 0x062A, 0x002E, 0x0020, 0x0644, 0x0627, 0x0020,
     0x064A, 0x0645, 0x0643, 0x0646, 0x0020, 0x0627, 0x0633, 0x062A, 0x0631, 0x062C,
     0x0627, 0x0639, 0x0647, 0x002E]"

definition clear_history_en :: str where
  "clear_history_en =
     [0x2139, 0xFE0F] @ ascii '' Conversation history will be cleared. This cannot be recovered.''"

definition clear_history_action :: Action where
  "clear_history_action = \<lparr>name = ascii ''clear_history'',
     description = ascii ''Clear conversation history'',
     risk_level = LOW,
     warning_ar = clear_history_ar,
     warning_en = clear_history_en\<rparr>"

text \<open>
  The dictionary literal itself. A later entry of a Python dictionary literal replaces
  an earlier one with the same key, as a later map update does.
\<close>

definition ACTIONS_predefined :: "str \<rightharpoonup> Action" where
  "ACTIONS_predefined =
     [ascii ''github_delete_repo'' \<mapsto> github_delete_repo_action,
      ascii ''github_force_push'' \<mapsto> github_force_push_action,
      ascii ''github_make_public'' \<mapsto> github_make_public_action,
      ascii ''azure_delete_resource'' \<mapsto> azure_delete_resource_action,
      ascii ''azure_modify_permissions'' \<mapsto> azure_modify_permissions_action,
      ascii ''delete_file'' \<mapsto> delete_file_action,
      ascii ''clear_history'' \<mapsto> clear_history_action]"

subsection \<open>The state\<close>

text \<open>
  \<open>ACTIONS\<close> is the class attribute of \<^verbatim>\<open>ConsentManager\<close>, a dictionary that
  \<^verbatim>\<open>register_action\<close> mutates in place; \<open>callback\<close> and \<open>auto_approve_safe\<close> are
  the attributes set by \<^verbatim>\<open>__init__\<close>. The callback is code of the presentation
  layer: it is given the warning and the language, acts on a state \<open>'w\<close> of its own
  (the terminal, the answers of the human) and returns a boolean. \<open>world\<close> is that
  state and \<open>calls\<close> records, in order, the arguments of every call of the callback;
  no method of the class reads either of them.

  The callback is an object of type \<^verbatim>\<open>Optional[Callable[[str, str], bool]]\<close>, and
  \<^verbatim>\<open>request_consent\<close> tests it with \<^verbatim>\<open>if not self.callback\<close>, that is, by its
  truth value. A callable object has one: \<open>truth\<close> is what \<^verbatim>\<open>bool(callback)\<close>
  gives, and \<open>call\<close> is what calling the object does. A function, a lambda or a bound
  method is always true; an instance of a class with \<^verbatim>\<open>__call__\<close> is false when its
  \<^verbatim>\<open>__bool__\<close> returns false or its \<^verbatim>\<open>__len__\<close> returns 0.
\<close>

type_synonym 'w channel = "str \<Rightarrow> str \<Rightarrow> 'w \<Rightarrow> bool \<times> 'w"

record 'w callable =
  truth :: bool
  call :: "'w channel"

record 'w consent_state =
  ACTIONS :: "str \<rightharpoonup> Action"
  callback :: "'w callable option"
  auto_approve_safe :: bool
  world :: 'w
  calls :: "(str \<times> str) list"

text \<open>
  \<^verbatim>\<open>ConsentManager.__init__\<close> in a fresh process: the catalogue is the dictionary
  literal of the class body, \<^verbatim>\<open>self.callback = callback\<close> and
  \<^verbatim>\<open>self.auto_approve_safe = True\<close>.
\<close>

definition init :: "'w callable option \<Rightarrow> 'w \<Rightarrow> 'w consent_state" where
  "init cb w =
     \<lparr>ACTIONS = ACTIONS_predefined, callback = cb, auto_approve_safe = True,
      world = w, calls = []\<rparr>"

subsection \<open>The methods of ConsentManager\<close>

text \<open>
  Each method is a computation in the state monad over \<open>'w consent_state\<close>.
  \<^verbatim>\<open>self.ACTIONS.get(action_name)\<close> is the lookup in the map; \<^verbatim>\<open>if not action\<close>
  holds exactly for \<^verbatim>\<open>None\<close>, an instance of the dataclass being truthy.
\<close>

definition requires_consent :: "str \<Rightarrow> ('w consent_state, bool) state" where
  "requires_consent action_name = do {
     self \<leftarrow> State_Monad.get;
     (case ACTIONS self action_name of
        None \<Rightarrow> State_Monad.return False
      | Some action \<Rightarrow>
          if auto_approve_safe self \<and> risk_level action = SAFE
          then State_Monad.return False
          else State_Monad.return True)
   }"

definition get_action_risk :: "str \<Rightarrow> ('w consent_state, ActionRisk) state" where
  "get_action_risk action_name = do {
     self \<leftarrow> State_Monad.get;
     (case ACTIONS self action_name of
        None \<Rightarrow> State_Monad.return SAFE
      | Some action \<Rightarrow> State_Monad.return (risk_level action))
   }"

definition get_warning :: "str \<Rightarrow> str \<Rightarrow> ('w consent_state, str) state" where
  "get_warning action_name language = do {
     self \<leftarrow> State_Monad.get;
     (case ACTIONS self action_name of
        None \<Rightarrow> State_Monad.return []
      | Some action \<Rightarrow> State_Monad.return (Action_get_warning action language))
   }"

text \<open>
  The call \<^verbatim>\<open>self.callback(warning, language)\<close>: the callback runs on the world,
  and the call is recorded. In \<^verbatim>\<open>request_consent\<close>, \<^verbatim>\<open>if not self.callback\<close> holds
  for \<^verbatim>\<open>None\<close> and for a callable object that is false: both are denied without a
  call.
\<close>

definition call_callback :: "'w channel \<Rightarrow> str \<Rightarrow> str \<Rightarrow> ('w consent_state, bool) state" where
  "call_callback cb warning language =
     State (\<lambda>s. case cb warning language (world s) of
                   (answer, w') \<Rightarrow>
                     (answer, s\<lparr>world := w', calls := calls s @ [(warning, language)]\<rparr>))"

definition request_consent :: "str \<Rightarrow> str \<Rightarrow> ('w consent_state, bool) state" where
  "request_consent action_name language = do {
     required \<leftarrow> requires_consent action_name;
     if \<not> required then State_Monad.return True
     else do {
       warning \<leftarrow> get_warning action_name language;
       self \<leftarrow> State_Monad.get;
       (case callback self of
          None \<Rightarrow> State_Monad.return False
        | Some cb \<Rightarrow>
            if \<not> truth cb then State_Monad.return False
            else call_callback (call cb) warning language)
     }
   }"

text \<open>\<^verbatim>\<open>self.ACTIONS[action.name] = action\<close>\<close>

definition register_action :: "Action \<Rightarrow> ('w consent_state, unit) state" where
  "register_action action =
     State_Monad.update (\<lambda>s. s\<lparr>ACTIONS := (ACTIONS s)(name action \<mapsto> action)\<rparr>)"

subsection \<open>create_calm_warning\<close>

text \<open>
  The dictionary \<^verbatim>\<open>icons\<close> of the function body, and the subscript
  \<^verbatim>\<open>icons[risk_level]\<close>, which raises \<^verbatim>\<open>KeyError\<close> on a key that is absent.
  The f-strings put one space between the icon and the details.
\<close>

datatype py_error = KeyError

definition icons :: "ActionRisk \<rightharpoonup> str" where
  "icons =
     [SAFE \<mapsto> [0x2713],
      LOW \<mapsto> [0x2139, 0xFE0F],
      MEDIUM \<mapsto> [0x26A0, 0xFE0F],
      HIGH \<mapsto> [0x26A0, 0xFE0F],
      CRITICAL \<mapsto> [0x1F6D1]]"

definition create_calm_warning ::
  "str \<Rightarrow> ActionRisk \<Rightarrow> str \<Rightarrow> str \<Rightarrow> py_error + (str \<times> str)" where
  "create_calm_warning action level details_ar details_en =
     (case icons level of
        None \<Rightarrow> Inl KeyError
      | Some icon \<Rightarrow>
          (let w_ar = icon @ ascii '' '' @ details_ar;
               w_en = icon @ ascii '' '' @ details_en
           in Inr (w_ar, w_en)))"

subsection \<open>Two consecutive requests, and sample inputs\<close>

text \<open>
  \<^verbatim>\<open>first = m.request_consent(a, l); second = m.request_consent(a, l)\<close>: the second
  request runs on the state that the first has left.
\<close>

definition request_twice :: "str \<Rightarrow> str \<Rightarrow> ('w consent_state, bool \<times> bool) state" where
  "request_twice action_name language = do {
     first \<leftarrow> request_consent action_name language;
     second \<leftarrow> request_consent action_name language;
     State_Monad.return (first, second)
   }"

text \<open>
  A callback that gives the same answer to every prompt and leaves the world as it is,
  as the stub \<^verbatim>\<open>def callback(warning, language): return approved\<close> of
  \<^verbatim>\<open>tests/test_haven.py\<close> does while \<^verbatim>\<open>approved\<close> is not reassigned.
\<close>

definition always :: "bool \<Rightarrow> 'w channel" where
  "always answer warning language w = (answer, w)"

text \<open>
  The two kinds of callable object: a function (\<^verbatim>\<open>def\<close> or \<^verbatim>\<open>lambda\<close>), which is
  true, and an instance of a class that defines \<^verbatim>\<open>__call__\<close> and whose \<^verbatim>\<open>__len__\<close>
  returns 0, which is false.
\<close>

definition function_object :: "'w channel \<Rightarrow> 'w callable" where
  "function_object f = \<lparr>truth = True, call = f\<rparr>"

definition empty_callable :: "'w channel \<Rightarrow> 'w callable" where
  "empty_callable f = \<lparr>truth = False, call = f\<rparr>"

text \<open>
  Actions a caller may register: one of risk \<^verbatim>\<open>SAFE\<close> (the predefined ones have
  none), one of risk \<^verbatim>\<open>CRITICAL\<close> with a short warning in each language, one of
  risk \<^verbatim>\<open>HIGH\<close> whose warnings are empty, and one whose name is the empty string.
\<close>

definition list_repos_action :: Action where
  "list_repos_action =
     \<lparr>name = ascii ''list_repos'',
      description = ascii ''List repositories'',
      risk_level = SAFE,
      warning_ar = [],
      warning_en = []\<rparr>"


definition silent_action :: Action where
  "silent_action =
     \<lparr>name = ascii ''drop_table'',
      description = ascii ''Drop a table'',
      risk_level = HIGH,
      warning_ar = [],
      warning_en = []\<rparr>"

definition nameless_action :: Action where
  "nameless_action =
     \<lparr>name = [],
      description = ascii ''An action without a name'',
      risk_level = HIGH,
      warning_ar = [],
      warning_en = []\<rparr>"

section \<open>Properties\<close>

subsection \<open>Evaluating the model\<close>

lemma ascii_eq_iff [simp]: "ascii s = ascii t \<longleftrightarrow> s = t"
  unfolding ascii_def by (simp add: inj_on_def)

lemma ascii_Nil [simp]: "ascii [] = []"
  by (simp add: ascii_def)

lemma ascii_Cons: "ascii (c # cs) = of_char c # ascii cs"
  by (simp add: ascii_def)

text \<open>What each method returns and the state it leaves, as one equation per method.\<close>

lemma run_requires_consent:
  "run_state (requires_consent action_name) s =
     (case ACTIONS s action_name of
        None \<Rightarrow> False
      | Some action \<Rightarrow> \<not> (auto_approve_safe s \<and> risk_level action = SAFE), s)"
  by (simp add: requires_consent_def split: option.split)

lemma run_get_action_risk:
  "run_state (get_action_risk action_name) s =
     (case ACTIONS s action_name of None \<Rightarrow> SAFE | Some action \<Rightarrow> risk_level action, s)"
  by (simp add: get_action_risk_def split: option.split)

lemma run_get_warning:
  "run_state (get_warning action_name language) s =
     (case ACTIONS s action_name of
        None \<Rightarrow> []
      | Some action \<Rightarrow> Action_get_warning action language, s)"
  by (simp add: get_warning_def split: option.split)

lemma run_call_callback:
  "run_state (call_callback cb warning language) s =
     (fst (cb warning language (world s)),
      s\<lparr>world := snd (cb warning language (world s)),
        calls := calls s @ [(warning, language)]\<rparr>)"
  by (simp add: call_callback_def split: prod.split)

lemma run_request_consent:
  "run_state (request_consent action_name language) s =
     (if \<not> fst (run_state (requires_consent action_name) s) then (True, s)
      else case callback s of
             None \<Rightarrow> (False, s)
           | Some cb \<Rightarrow>
               if \<not> truth cb then (False, s)
               else run_state
                      (call_callback (call cb)
                         (fst (run_state (get_warning action_name language) s)) language) s)"
  by (simp add: request_consent_def run_requires_consent run_get_warning split: option.split)

lemma run_register_action:
  "run_state (register_action action) s =
     ((), s\<lparr>ACTIONS := (ACTIONS s)(name action \<mapsto> action)\<rparr>)"
  by (simp add: register_action_def State_Monad.update_def)

lemma run_request_twice:
  "run_state (request_twice action_name language) s =
     (case run_state (request_consent action_name language) s of
        (first, s1) \<Rightarrow>
          (case run_state (request_consent action_name language) s1 of
             (second, s2) \<Rightarrow> ((first, second), s2)))"
  by (simp add: request_twice_def split: prod.split)

lemma always_constant: "fst (always answer warning language w) = answer"
  by (simp add: always_def)

lemma function_object_sel [simp]:
  "truth (function_object f) = True" "call (function_object f) = f"
  by (simp_all add: function_object_def)

lemma empty_callable_sel [simp]:
  "truth (empty_callable f) = False" "call (empty_callable f) = f"
  by (simp_all add: empty_callable_def)

text \<open>Lookups in the predefined catalogue.\<close>

lemma predefined_github_delete_repo:
  "ACTIONS_predefined (ascii ''github_delete_repo'') = Some github_delete_repo_action"
  by (simp add: ACTIONS_predefined_def)

lemma predefined_unknown_action:
  "ACTIONS_predefined (ascii ''unknown_action'') = None"
  by (simp add: ACTIONS_predefined_def)

lemma predefined_list_repos: "ACTIONS_predefined (ascii ''list_repos'') = None"
  by (simp add: ACTIONS_predefined_def)


subsection \<open>Unknown actions\<close>

text \<open>
  C2. For every action id that is not in the catalogue, \<^verbatim>\<open>requires_consent\<close> returns
  false, \<^verbatim>\<open>get_action_risk\<close> returns \<^verbatim>\<open>SAFE\<close>, and \<^verbatim>\<open>get_warning\<close> returns the
  empty string for every language tag.
\<close>

theorem unknown_action:
  assumes "ACTIONS s action_name = None"
  shows "fst (run_state (requires_consent action_name) s) = False
       \<and> fst (run_state (get_action_risk action_name) s) = SAFE
       \<and> fst (run_state (get_warning action_name language) s) = []"
  using assms by (simp add: run_requires_consent run_get_action_risk run_get_warning)

theorem unknown_action_witness:
  "ACTIONS (init None ()) (ascii ''unknown_action'') = None
   \<and> fst (run_state (requires_consent (ascii ''unknown_action'')) (init None ())) = False
   \<and> fst (run_state (get_action_risk (ascii ''unknown_action'')) (init None ())) = SAFE
   \<and> fst (run_state (get_warning (ascii ''unknown_action'') (ascii ''en'')) (init None ())) = []"
proof -
  have absent: "ACTIONS (init None ()) (ascii ''unknown_action'') = None"
    by (simp add: init_def predefined_unknown_action)
  from unknown_action [OF absent, of "ascii ''en''"] absent show ?thesis
    by blast
qed

subsection \<open>Registered actions\<close>

text \<open>
  C3. For every action id registered in the catalogue: if its risk is \<^verbatim>\<open>SAFE\<close>,
  \<^verbatim>\<open>requires_consent\<close> returns false when \<^verbatim>\<open>auto_approve_safe\<close> is true and true
  when it is false; if its risk is not \<^verbatim>\<open>SAFE\<close>, it returns true for both values of
  \<^verbatim>\<open>auto_approve_safe\<close>.
\<close>

theorem requires_consent_registered:
  assumes "ACTIONS s action_name = Some action"
  shows "(risk_level action = SAFE \<longrightarrow>
            fst (run_state (requires_consent action_name) (s\<lparr>auto_approve_safe := True\<rparr>)) = False
          \<and> fst (run_state (requires_consent action_name) (s\<lparr>auto_approve_safe := False\<rparr>)) = True)
       \<and> (risk_level action \<noteq> SAFE \<longrightarrow>
            fst (run_state (requires_consent action_name) (s\<lparr>auto_approve_safe := True\<rparr>)) = True
          \<and> fst (run_state (requires_consent action_name) (s\<lparr>auto_approve_safe := False\<rparr>)) = True)"
  using assms by (simp add: run_requires_consent)

theorem requires_consent_registered_witness:
  "ACTIONS (snd (run_state (register_action list_repos_action) (init None ()))) (ascii ''list_repos'')
     = Some list_repos_action
   \<and> risk_level list_repos_action = SAFE
   \<and> fst (run_state (requires_consent (ascii ''list_repos''))
        ((snd (run_state (register_action list_repos_action) (init None ())))
           \<lparr>auto_approve_safe := True\<rparr>)) = False
   \<and> fst (run_state (requires_consent (ascii ''list_repos''))
        ((snd (run_state (register_action list_repos_action) (init None ())))
           \<lparr>auto_approve_safe := False\<rparr>)) = True
   \<and> ACTIONS (init None ()) (ascii ''github_delete_repo'') = Some github_delete_repo_action
   \<and> risk_level github_delete_repo_action \<noteq> SAFE
   \<and> fst (run_state (requires_consent (ascii ''github_delete_repo''))
        ((init None ())\<lparr>auto_approve_safe := True\<rparr>)) = True
   \<and> fst (run_state (requires_consent (ascii ''github_delete_repo''))
        ((init None ())\<lparr>auto_approve_safe := False\<rparr>)) = True"
proof -
  have reg: "ACTIONS (snd (run_state (register_action list_repos_action) (init None ())))
               (ascii ''list_repos'') = Some list_repos_action"
    by (simp add: run_register_action list_repos_action_def)
  have safe: "risk_level list_repos_action = SAFE"
    by (simp add: list_repos_action_def)
  have pre: "ACTIONS (init None ()) (ascii ''github_delete_repo'') = Some github_delete_repo_action"
    by (simp add: init_def predefined_github_delete_repo)
  have crit: "risk_level github_delete_repo_action \<noteq> SAFE"
    by (simp add: github_delete_repo_action_def)
  from requires_consent_registered [OF reg] requires_consent_registered [OF pre] reg safe pre crit
  show ?thesis by blast
qed

subsection \<open>Requests without a callback\<close>

text \<open>
  C1. For every action id and language: if the action requires consent and no callback
  is configured, \<^verbatim>\<open>request_consent\<close> returns false; if the action does not require
  consent, \<^verbatim>\<open>request_consent\<close> returns true, whether a callback is configured or not.
\<close>

theorem request_consent_no_callback:
  "(fst (run_state (requires_consent action_name) s) \<and> callback s = None \<longrightarrow>
      fst (run_state (request_consent action_name language) s) = False)
   \<and> (\<not> fst (run_state (requires_consent action_name) s) \<longrightarrow>
      fst (run_state (request_consent action_name language) s) = True)"
  by (simp add: run_request_consent)

theorem request_consent_no_callback_witness:
  "fst (run_state (requires_consent (ascii ''github_delete_repo'')) (init None ()))
   \<and> callback (init None ()) = None
   \<and> fst (run_state (request_consent (ascii ''github_delete_repo'') (ascii ''ar'')) (init None ())) = False
   \<and> \<not> fst (run_state (requires_consent (ascii ''unknown_action'')) (init (Some (function_object (always False))) ()))
   \<and> fst (run_state (request_consent (ascii ''unknown_action'') (ascii ''ar''))
        (init (Some (function_object (always False))) ())) = True"
proof -
  have req: "fst (run_state (requires_consent (ascii ''github_delete_repo'')) (init None ()))"
    by (simp add: run_requires_consent init_def predefined_github_delete_repo
        github_delete_repo_action_def)
  have none: "callback (init None ()) = None"
    by (simp add: init_def)
  have unreq: "\<not> fst (run_state (requires_consent (ascii ''unknown_action''))
                 (init (Some (function_object (always False))) ()))"
    by (simp add: run_requires_consent init_def predefined_unknown_action)
  from request_consent_no_callback [of "ascii ''github_delete_repo''" "init None ()" "ascii ''ar''"]
    request_consent_no_callback [of "ascii ''unknown_action''" "init (Some (function_object (always False))) ()"
      "ascii ''ar''"]
    req none unreq
  show ?thesis by blast
qed

subsection \<open>Requests with a callback\<close>




subsection \<open>Two consecutive requests\<close>

text \<open>
  C8, as stated: for every action id and language, two consecutive requests with a
  callback that always returns true both return true, and two consecutive requests with
  a callback that always returns false both return false. The second half fails for an
  action that requires no consent: both requests for an unknown action return true,
  whatever the callback would answer. The first half fails for a callback that is a
  false object: both requests for \<^verbatim>\<open>github_delete_repo\<close> are denied without a call,
  although the callback would always answer true.
\<close>

theorem request_twice_counterexample:
  "fst (run_state (request_twice (ascii ''unknown_action'') (ascii ''ar''))
     (init (Some (function_object (always False))) ())) = (True, True)
   \<and> fst (run_state (request_twice (ascii ''github_delete_repo'') (ascii ''ar''))
     (init (Some (empty_callable (always True))) ())) = (False, False)"
  by (simp add: run_request_twice run_request_consent run_requires_consent init_def
      predefined_unknown_action predefined_github_delete_repo github_delete_repo_action_def)

text \<open>
  C8, amended. Let the configured callback be a true object (as every function is).
  If it always returns true, two consecutive requests both return true. If it always
  returns false, they both return false when the action requires consent. When the
  action requires no consent, they both return true. Nothing is remembered between the
  two: when the action requires consent, each request returns the answer that the
  callback gives to that request.
\<close>

theorem request_twice_answers:
  assumes "callback s = Some cb" and "truth cb"
  shows "((\<forall>warning lang w. fst (call cb warning lang w) = True) \<longrightarrow>
            fst (run_state (request_twice action_name language) s) = (True, True))
       \<and> ((\<forall>warning lang w. fst (call cb warning lang w) = False)
            \<and> fst (run_state (requires_consent action_name) s) \<longrightarrow>
            fst (run_state (request_twice action_name language) s) = (False, False))
       \<and> (\<not> fst (run_state (requires_consent action_name) s) \<longrightarrow>
            fst (run_state (request_twice action_name language) s) = (True, True))
       \<and> (fst (run_state (requires_consent action_name) s) \<longrightarrow>
            fst (run_state (request_twice action_name language) s) =
              (fst (call cb (fst (run_state (get_warning action_name language) s)) language
                      (world s)),
               fst (call cb (fst (run_state (get_warning action_name language) s)) language
                      (snd (call cb (fst (run_state (get_warning action_name language) s))
                              language (world s))))))"
  using assms
  by (simp add: run_request_twice run_request_consent run_call_callback run_requires_consent
      run_get_warning split: option.split)

theorem request_twice_answers_witness:
  "callback (init (Some (function_object (always True))) ()) = Some (function_object (always True))
   \<and> truth (function_object (always True))
   \<and> (\<forall>warning lang w. fst (call (function_object (always True)) warning lang (w::unit)) = True)
   \<and> fst (run_state (request_twice (ascii ''github_delete_repo'') (ascii ''ar''))
        (init (Some (function_object (always True))) ())) = (True, True)
   \<and> callback (init (Some (function_object (always False))) ())
       = Some (function_object (always False))
   \<and> truth (function_object (always False))
   \<and> (\<forall>warning lang w. fst (call (function_object (always False)) warning lang (w::unit)) = False)
   \<and> fst (run_state (requires_consent (ascii ''github_delete_repo''))
        (init (Some (function_object (always False))) ()))
   \<and> fst (run_state (request_twice (ascii ''github_delete_repo'') (ascii ''ar''))
        (init (Some (function_object (always False))) ())) = (False, False)
   \<and> \<not> fst (run_state (requires_consent (ascii ''unknown_action''))
          (init (Some (function_object (always False))) ()))
   \<and> fst (run_state (request_twice (ascii ''unknown_action'') (ascii ''ar''))
        (init (Some (function_object (always False))) ())) = (True, True)"
proof -
  let ?yes = "init (Some (function_object (always True))) ()"
  let ?no = "init (Some (function_object (always False))) ()"
  have cb_yes: "callback ?yes = Some (function_object (always True))"
    by (simp add: init_def)
  have cb_no: "callback ?no = Some (function_object (always False))"
    by (simp add: init_def)
  have true_yes: "truth (function_object (always True))"
    by simp
  have true_no: "truth (function_object (always False))"
    by simp
  have const_yes:
    "\<forall>warning lang w. fst (call (function_object (always True)) warning lang (w::unit)) = True"
    by (simp add: always_constant)
  have const_no:
    "\<forall>warning lang w. fst (call (function_object (always False)) warning lang (w::unit)) = False"
    by (simp add: always_constant)
  have req: "fst (run_state (requires_consent (ascii ''github_delete_repo'')) ?no)"
    by (simp add: run_requires_consent init_def predefined_github_delete_repo
        github_delete_repo_action_def)
  have unreq: "\<not> fst (run_state (requires_consent (ascii ''unknown_action'')) ?no)"
    by (simp add: run_requires_consent init_def predefined_unknown_action)
  from request_twice_answers [OF cb_yes true_yes, of "ascii ''github_delete_repo''" "ascii ''ar''"]
    request_twice_answers [OF cb_no true_no, of "ascii ''github_delete_repo''" "ascii ''ar''"]
    request_twice_answers [OF cb_no true_no, of "ascii ''unknown_action''" "ascii ''ar''"]
    cb_yes cb_no true_yes true_no const_yes const_no req unreq
  show ?thesis by blast
qed

subsection \<open>The methods that only read\<close>

text \<open>
  C9. \<^verbatim>\<open>requires_consent\<close> and \<^verbatim>\<open>get_warning\<close> have no side effect: for every
  action id, language and state, they leave the state (the catalogue, the configuration
  and everything else) as it was; and their result is a function of the catalogue, the
  action id, the language and \<^verbatim>\<open>auto_approve_safe\<close> alone: on two states that agree
  on the catalogue and on \<^verbatim>\<open>auto_approve_safe\<close> they return the same value.
\<close>

theorem reads_have_no_effect:
  "snd (run_state (requires_consent action_name) s) = s
   \<and> snd (run_state (get_warning action_name language) s) = s
   \<and> (ACTIONS s' = ACTIONS s \<and> auto_approve_safe s' = auto_approve_safe s \<longrightarrow>
        fst (run_state (requires_consent action_name) s')
          = fst (run_state (requires_consent action_name) s)
      \<and> fst (run_state (get_warning action_name language) s')
          = fst (run_state (get_warning action_name language) s))"
  by (auto simp add: run_requires_consent run_get_warning split: option.split)

theorem reads_have_no_effect_witness:
  "ACTIONS (snd (run_state (request_consent (ascii ''github_delete_repo'') (ascii ''ar''))
       (init (Some (function_object (always True))) ()))) = ACTIONS (init None ())
   \<and> auto_approve_safe (snd (run_state (request_consent (ascii ''github_delete_repo'') (ascii ''ar''))
       (init (Some (function_object (always True))) ()))) = auto_approve_safe (init None ())
   \<and> snd (run_state (requires_consent (ascii ''github_delete_repo'')) (init None ())) = init None ()
   \<and> snd (run_state (get_warning (ascii ''github_delete_repo'') (ascii ''en'')) (init None ()))
       = init None ()
   \<and> fst (run_state (requires_consent (ascii ''github_delete_repo''))
        (snd (run_state (request_consent (ascii ''github_delete_repo'') (ascii ''ar''))
           (init (Some (function_object (always True))) ()))))
       = fst (run_state (requires_consent (ascii ''github_delete_repo'')) (init None ()))
   \<and> fst (run_state (get_warning (ascii ''github_delete_repo'') (ascii ''en''))
        (snd (run_state (request_consent (ascii ''github_delete_repo'') (ascii ''ar''))
           (init (Some (function_object (always True))) ()))))
       = fst (run_state (get_warning (ascii ''github_delete_repo'') (ascii ''en'')) (init None ()))"
proof -
  let ?s = "init None ()"
  let ?s' = "snd (run_state (request_consent (ascii ''github_delete_repo'') (ascii ''ar''))
               (init (Some (function_object (always True))) ()))"
  have registry: "ACTIONS ?s' = ACTIONS ?s"
    by (simp add: run_request_consent run_call_callback init_def split: option.split)
  have config: "auto_approve_safe ?s' = auto_approve_safe ?s"
    by (simp add: run_request_consent run_call_callback init_def split: option.split)
  from reads_have_no_effect
      [where s = ?s and s' = ?s' and action_name = "ascii ''github_delete_repo''"
         and language = "ascii ''en''"]
    registry config
  show ?thesis by blast
qed

subsection \<open>The language of a warning\<close>

text \<open>
  C4, as stated: for every registered action, \<^verbatim>\<open>get_warning\<close> returns the Arabic
  text for the language \<^verbatim>\<open>"ar"\<close>, the English text for \<^verbatim>\<open>"en"\<close>, and the Arabic
  text for every other language tag. The last part fails: for the tag \<^verbatim>\<open>"fr"\<close> the
  warning of \<^verbatim>\<open>github_delete_repo\<close> is the English text, which is not the Arabic one.
\<close>

theorem get_warning_other_language_counterexample:
  "ACTIONS (init None ()) (ascii ''github_delete_repo'') = Some github_delete_repo_action
   \<and> ascii ''fr'' \<noteq> ascii ''ar'' \<and> ascii ''fr'' \<noteq> ascii ''en''
   \<and> fst (run_state (get_warning (ascii ''github_delete_repo'') (ascii ''fr'')) (init None ()))
       = warning_en github_delete_repo_action
   \<and> fst (run_state (get_warning (ascii ''github_delete_repo'') (ascii ''fr'')) (init None ()))
       \<noteq> warning_ar github_delete_repo_action"
proof -
  have pre: "ACTIONS (init None ()) (ascii ''github_delete_repo'') = Some github_delete_repo_action"
    by (simp add: init_def predefined_github_delete_repo)
  have english:
    "fst (run_state (get_warning (ascii ''github_delete_repo'') (ascii ''fr'')) (init None ()))
       = warning_en github_delete_repo_action"
    using pre by (simp add: run_get_warning Action_get_warning_def)
  have differ: "warning_en github_delete_repo_action \<noteq> warning_ar github_delete_repo_action"
    by (simp add: github_delete_repo_action_def github_delete_repo_ar_def
        github_delete_repo_en_def ascii_Cons)
  from pre english differ show ?thesis
    by simp
qed

text \<open>
  C4, amended. For every registered action, \<^verbatim>\<open>get_warning\<close> returns the Arabic text
  for the language \<^verbatim>\<open>"ar"\<close>, the English text for \<^verbatim>\<open>"en"\<close>, and the English text
  for every other language tag.
\<close>

theorem get_warning_language:
  assumes "ACTIONS s action_name = Some action"
  shows "(language = ascii ''ar'' \<longrightarrow>
            fst (run_state (get_warning action_name language) s) = warning_ar action)
       \<and> (language = ascii ''en'' \<longrightarrow>
            fst (run_state (get_warning action_name language) s) = warning_en action)
       \<and> (language \<noteq> ascii ''ar'' \<and> language \<noteq> ascii ''en'' \<longrightarrow>
            fst (run_state (get_warning action_name language) s) = warning_en action)"
  using assms by (simp add: run_get_warning Action_get_warning_def)

theorem get_warning_language_witness:
  "ACTIONS (init None ()) (ascii ''github_delete_repo'') = Some github_delete_repo_action
   \<and> fst (run_state (get_warning (ascii ''github_delete_repo'') (ascii ''ar'')) (init None ()))
       = warning_ar github_delete_repo_action
   \<and> fst (run_state (get_warning (ascii ''github_delete_repo'') (ascii ''en'')) (init None ()))
       = warning_en github_delete_repo_action
   \<and> ascii ''fr'' \<noteq> ascii ''ar'' \<and> ascii ''fr'' \<noteq> ascii ''en''
   \<and> fst (run_state (get_warning (ascii ''github_delete_repo'') (ascii ''fr'')) (init None ()))
       = warning_en github_delete_repo_action"
proof -
  have pre: "ACTIONS (init None ()) (ascii ''github_delete_repo'') = Some github_delete_repo_action"
    by (simp add: init_def predefined_github_delete_repo)
  have other: "ascii ''fr'' \<noteq> ascii ''ar''" "ascii ''fr'' \<noteq> ascii ''en''"
    by simp_all
  from get_warning_language [OF pre, of "ascii ''ar''"]
    get_warning_language [OF pre, of "ascii ''en''"]
    get_warning_language [OF pre, of "ascii ''fr''"] pre other
  show ?thesis by blast
qed

subsection \<open>Registering an action\<close>

lemma predefined_empty_name: "ACTIONS_predefined [] = None"
  by (simp add: ACTIONS_predefined_def ascii_Cons)

lemma predefined_drop_table: "ACTIONS_predefined (ascii ''drop_table'') = None"
  by (simp add: ACTIONS_predefined_def)

text \<open>
  C6, as stated: \<^verbatim>\<open>register_action\<close> inserts the action under its name, replacing
  an entry of the same name, and validates nothing but that the name is not empty. The
  code does not look at the name either: an action whose name is the empty string is
  registered like any other, and is found under the empty string afterwards.
\<close>

theorem register_action_empty_name_counterexample:
  "name nameless_action = []
   \<and> ACTIONS (init None ()) [] = None
   \<and> ACTIONS (snd (run_state (register_action nameless_action) (init None ()))) []
       = Some nameless_action"
  by (simp add: run_register_action init_def predefined_empty_name nameless_action_def)

text \<open>
  C6, amended. \<^verbatim>\<open>register_action\<close> inserts the action into the catalogue under its
  name, replacing any entry of the same name, and validates nothing, the name included:
  for every action (also one of a risk other than \<^verbatim>\<open>SAFE\<close> with empty warnings)
  the lookup of its name afterwards gives exactly the registered action, the entries
  of all other names are as before, nothing but the catalogue has changed, and
  \<^verbatim>\<open>get_warning\<close> for that name gives the warning of the registered action.
\<close>

theorem register_action_inserts:
  "ACTIONS (snd (run_state (register_action action) s)) (name action) = Some action
   \<and> (\<forall>action_name. action_name \<noteq> name action \<longrightarrow>
         ACTIONS (snd (run_state (register_action action) s)) action_name = ACTIONS s action_name)
   \<and> snd (run_state (register_action action) s)
       = s\<lparr>ACTIONS := ACTIONS (snd (run_state (register_action action) s))\<rparr>
   \<and> fst (run_state (get_warning (name action) language)
        (snd (run_state (register_action action) s))) = Action_get_warning action language"
  by (simp add: run_register_action run_get_warning)

theorem register_action_inserts_witness:
  "ascii ''github_delete_repo'' \<noteq> name silent_action
   \<and> risk_level silent_action \<noteq> SAFE
   \<and> ACTIONS (init None ()) (name silent_action) = None
   \<and> ACTIONS (snd (run_state (register_action silent_action) (init None ()))) (name silent_action)
       = Some silent_action
   \<and> ACTIONS (snd (run_state (register_action silent_action) (init None ())))
        (ascii ''github_delete_repo'') = Some github_delete_repo_action
   \<and> fst (run_state (get_warning (name silent_action) (ascii ''en''))
        (snd (run_state (register_action silent_action) (init None ())))) = []
   \<and> ACTIONS (init None ()) (name (github_delete_repo_action\<lparr>risk_level := LOW\<rparr>))
       = Some github_delete_repo_action
   \<and> ACTIONS (snd (run_state (register_action (github_delete_repo_action\<lparr>risk_level := LOW\<rparr>))
        (init None ()))) (name (github_delete_repo_action\<lparr>risk_level := LOW\<rparr>))
       = Some (github_delete_repo_action\<lparr>risk_level := LOW\<rparr>)"
proof -
  let ?s = "init None ()"
  let ?redefined = "github_delete_repo_action\<lparr>risk_level := LOW\<rparr>"
  have other: "ascii ''github_delete_repo'' \<noteq> name silent_action"
    by (simp add: silent_action_def)
  have risky: "risk_level silent_action \<noteq> SAFE"
    by (simp add: silent_action_def)
  have fresh: "ACTIONS ?s (name silent_action) = None"
    by (simp add: init_def silent_action_def predefined_drop_table)
  have kept: "ACTIONS ?s (ascii ''github_delete_repo'') = Some github_delete_repo_action"
    by (simp add: init_def predefined_github_delete_repo)
  have old: "ACTIONS ?s (name ?redefined) = Some github_delete_repo_action"
    using kept by (simp add: github_delete_repo_action_def)
  have empty: "Action_get_warning silent_action (ascii ''en'') = []"
    by (simp add: Action_get_warning_def silent_action_def)
  from register_action_inserts [of silent_action ?s "ascii ''en''"]
    register_action_inserts [of ?redefined ?s "ascii ''en''"]
    other risky fresh kept old empty
  show ?thesis by metis
qed

subsection \<open>The predefined catalogue\<close>

lemma ACTIONS_predefined_map_of:
  "ACTIONS_predefined =
     map_of
       [(ascii ''github_delete_repo'', github_delete_repo_action),
        (ascii ''github_force_push'', github_force_push_action),
        (ascii ''github_make_public'', github_make_public_action),
        (ascii ''azure_delete_resource'', azure_delete_resource_action),
        (ascii ''azure_modify_permissions'', azure_modify_permissions_action),
        (ascii ''delete_file'', delete_file_action),
        (ascii ''clear_history'', clear_history_action)]"
  by (rule ext) (simp add: ACTIONS_predefined_def)

lemma dom_ACTIONS_predefined:
  "dom ACTIONS_predefined =
     {ascii ''github_delete_repo'', ascii ''github_force_push'', ascii ''github_make_public'',
      ascii ''azure_delete_resource'', ascii ''azure_modify_permissions'',
      ascii ''delete_file'', ascii ''clear_history''}"
  unfolding ACTIONS_predefined_map_of by (simp add: dom_map_of_conv_image_fst)

lemma ran_ACTIONS_predefined:
  "ran ACTIONS_predefined =
     {github_delete_repo_action, github_force_push_action, github_make_public_action,
      azure_delete_resource_action, azure_modify_permissions_action,
      delete_file_action, clear_history_action}"
  unfolding ACTIONS_predefined_map_of by (subst ran_distinct) simp_all

lemma risk_levels_predefined:
  "risk_level github_delete_repo_action = CRITICAL"
  "risk_level github_force_push_action = HIGH"
  "risk_level github_make_public_action = MEDIUM"
  "risk_level azure_delete_resource_action = HIGH"
  "risk_level azure_modify_permissions_action = MEDIUM"
  "risk_level delete_file_action = LOW"
  "risk_level clear_history_action = LOW"
  by (simp_all add: github_delete_repo_action_def github_force_push_action_def
      github_make_public_action_def azure_delete_resource_action_def
      azure_modify_permissions_action_def delete_file_action_def clear_history_action_def)

lemma warnings_predefined:
  "warning_ar github_delete_repo_action \<noteq> [] \<and> warning_en github_delete_repo_action \<noteq> []"
  "warning_ar github_force_push_action \<noteq> [] \<and> warning_en github_force_push_action \<noteq> []"
  "warning_ar github_make_public_action \<noteq> [] \<and> warning_en github_make_public_action \<noteq> []"
  "warning_ar azure_delete_resource_action \<noteq> [] \<and> warning_en azure_delete_resource_action \<noteq> []"
  "warning_ar azure_modify_permissions_action \<noteq> []
     \<and> warning_en azure_modify_permissions_action \<noteq> []"
  "warning_ar delete_file_action \<noteq> [] \<and> warning_en delete_file_action \<noteq> []"
  "warning_ar clear_history_action \<noteq> [] \<and> warning_en clear_history_action \<noteq> []"
  by (simp_all add: github_delete_repo_action_def github_force_push_action_def
      github_make_public_action_def azure_delete_resource_action_def
      azure_modify_permissions_action_def delete_file_action_def clear_history_action_def
      github_delete_repo_ar_def github_force_push_ar_def github_make_public_ar_def
      azure_delete_resource_ar_def azure_modify_permissions_ar_def delete_file_ar_def
      clear_history_ar_def
      github_delete_repo_en_def github_force_push_en_def github_make_public_en_def
      azure_delete_resource_en_def azure_modify_permissions_en_def delete_file_en_def
      clear_history_en_def)

text \<open>
  C7, as stated: the catalogue at process start holds exactly six predefined actions.
  It holds seven.
\<close>

theorem predefined_actions_six_counterexample:
  "card (dom (ACTIONS (init None ()))) \<noteq> 6"
  by (simp add: init_def dom_ACTIONS_predefined)

text \<open>
  C7, amended. The catalogue at process start holds exactly seven predefined actions;
  their risk levels are all the levels except \<^verbatim>\<open>SAFE\<close>; each of them has a warning
  that is not empty in Arabic and in English; \<^verbatim>\<open>get_action_risk("github_delete_repo")\<close>
  is \<^verbatim>\<open>CRITICAL\<close> and \<^verbatim>\<open>requires_consent("github_delete_repo")\<close> is true.
\<close>

theorem predefined_actions:
  "card (dom (ACTIONS (init cb w))) = 7
   \<and> risk_level ` ran (ACTIONS (init cb w)) = {LOW, MEDIUM, HIGH, CRITICAL}
   \<and> (\<forall>action \<in> ran (ACTIONS (init cb w)).
         risk_level action \<noteq> SAFE \<and> warning_ar action \<noteq> [] \<and> warning_en action \<noteq> [])
   \<and> fst (run_state (get_action_risk (ascii ''github_delete_repo'')) (init cb w)) = CRITICAL
   \<and> fst (run_state (requires_consent (ascii ''github_delete_repo'')) (init cb w)) = True"
proof -
  have count: "card (dom (ACTIONS (init cb w))) = 7"
    by (simp add: init_def dom_ACTIONS_predefined)
  have levels: "risk_level ` ran (ACTIONS (init cb w)) = {LOW, MEDIUM, HIGH, CRITICAL}"
    by (auto simp add: init_def ran_ACTIONS_predefined risk_levels_predefined)
  have texts: "\<forall>action \<in> ran (ACTIONS (init cb w)).
      risk_level action \<noteq> SAFE \<and> warning_ar action \<noteq> [] \<and> warning_en action \<noteq> []"
    by (simp add: init_def ran_ACTIONS_predefined risk_levels_predefined warnings_predefined)
  have risk: "fst (run_state (get_action_risk (ascii ''github_delete_repo'')) (init cb w)) = CRITICAL"
    by (simp add: run_get_action_risk init_def predefined_github_delete_repo
        risk_levels_predefined)
  have req: "fst (run_state (requires_consent (ascii ''github_delete_repo'')) (init cb w)) = True"
    by (simp add: run_requires_consent init_def predefined_github_delete_repo
        risk_levels_predefined)
  from count levels texts risk req show ?thesis
    by blast
qed

theorem predefined_actions_witness:
  "clear_history_action \<in> ran (ACTIONS (init None ()))
   \<and> risk_level clear_history_action \<noteq> SAFE
   \<and> warning_ar clear_history_action \<noteq> []
   \<and> warning_en clear_history_action \<noteq> []"
proof -
  have member: "clear_history_action \<in> ran (ACTIONS (init None ()))"
    by (simp add: init_def ran_ACTIONS_predefined)
  from predefined_actions [of None "()"] have
    "\<forall>action \<in> ran (ACTIONS (init None ())).
       risk_level action \<noteq> SAFE \<and> warning_ar action \<noteq> [] \<and> warning_en action \<noteq> []"
    by blast
  with member show ?thesis
    by blast
qed

subsection \<open>Calm warnings\<close>

text \<open>
  C10. For every risk level and every two detail strings, \<^verbatim>\<open>create_calm_warning\<close>
  returns the pair of the icon, a space and the Arabic details, and of the icon, a space
  and the English details, in this order, where the icon is U+2713 for \<^verbatim>\<open>SAFE\<close>,
  U+2139 U+FE0F for \<^verbatim>\<open>LOW\<close>, U+26A0 U+FE0F for \<^verbatim>\<open>MEDIUM\<close> and \<^verbatim>\<open>HIGH\<close>, and
  U+1F6D1 for \<^verbatim>\<open>CRITICAL\<close>. It never raises, and neither warning is empty.
\<close>

theorem create_calm_warning_result:
  "create_calm_warning action level details_ar details_en =
     Inr ((case level of
             SAFE \<Rightarrow> [0x2713]
           | LOW \<Rightarrow> [0x2139, 0xFE0F]
           | MEDIUM \<Rightarrow> [0x26A0, 0xFE0F]
           | HIGH \<Rightarrow> [0x26A0, 0xFE0F]
           | CRITICAL \<Rightarrow> [0x1F6D1]) @ [0x20] @ details_ar,
          (case level of
             SAFE \<Rightarrow> [0x2713]
           | LOW \<Rightarrow> [0x2139, 0xFE0F]
           | MEDIUM \<Rightarrow> [0x26A0, 0xFE0F]
           | HIGH \<Rightarrow> [0x26A0, 0xFE0F]
           | CRITICAL \<Rightarrow> [0x1F6D1]) @ [0x20] @ details_en)
   \<and> (case create_calm_warning action level details_ar details_en of
         Inl e \<Rightarrow> False
       | Inr (w_ar, w_en) \<Rightarrow> w_ar \<noteq> [] \<and> w_en \<noteq> [])"
  by (cases level) (simp_all add: create_calm_warning_def icons_def ascii_Cons)

end
